theory Spec2Isabelle
  imports Complex_Main "HOL-Library.Word"
begin

section \<open>The configuration object of libcmaes (src/parameters.h)\<close>

text \<open>
  The class template \<^verbatim>\<open>Parameters<TGenoPheno>\<close> is a record whose type parameter
  \<open>'gp\<close> is the genotype/phenotype class. A member \<^verbatim>\<open>_name\<close> of the class is the
  field \<open>m_name\<close> of the record (an Isabelle name cannot start with an underscore).
  Each overload of \<^verbatim>\<open>set_x0\<close> is a definition of its own, named after its argument
  types. A member function that mutates the object takes the object and returns the
  new one.
\<close>

subsection \<open>Scalar types\<close>

text \<open>
  \<^verbatim>\<open>int\<close> is a 32-bit word read in two's complement (\<open>sint\<close>), \<^verbatim>\<open>uint64_t\<close> a
  64-bit word. The conversion \<^verbatim>\<open>int\<close> to \<^verbatim>\<open>uint64_t\<close> is the sign extension
  \<open>scast\<close>, the conversion \<^verbatim>\<open>uint64_t\<close> to \<^verbatim>\<open>int\<close> keeps the low 32 bits
  (\<open>ucast\<close>).
\<close>

type_synonym c_int = "32 word"
type_synonym uint64_t = "64 word"

text \<open>
  A \<^verbatim>\<open>double\<close> is a finite value, an infinity or a NaN. The class only stores and
  returns doubles; its single computation on them, the default population size, starts
  from an \<^verbatim>\<open>int\<close> and ends in an \<^verbatim>\<open>int\<close> and is modelled on the reals (see
  \<open>default_lambda\<close>). The literal \<^verbatim>\<open>1e-12\<close> is \<open>Finite (1 / 10 ^ 12)\<close>.
\<close>

datatype double = Finite real | PosInf | NegInf | NaN

text \<open>Eigen's dynamic column vector \<^verbatim>\<open>dVec\<close> is the list of its coefficients.\<close>

type_synonym dVec = "double list"

text \<open>
  What the C++ leaves undefined is an error value of the model: a vector of negative
  size, a read past the end of the caller's array, and the conversion to \<^verbatim>\<open>int\<close> of
  a double that is infinite or a NaN.
\<close>

datatype error = NegativeSize | OutOfBoundsRead | FloatToIntUndefined

subsection \<open>Logging\<close>

text \<open>
  Modelled from the spec: the macro \<^verbatim>\<open>LOG\<close> of llogging.h, which is not part of
  the sources at hand. The spec says of the unknown algorithm name that it "emits a
  diagnostic", "not an exception": a statement \<^verbatim>\<open>LOG(ERROR) << a << b << std::endl\<close>
  returns normally and adds one record, of severity \<open>ERROR\<close> and with the text streamed
  into it, to the diagnostics of the call.
\<close>

datatype severity = INFO | WARNING | ERROR

type_synonym diagnostic = "severity \<times> string"

definition LOG :: "severity \<Rightarrow> string \<Rightarrow> diagnostic list" where
  "LOG sev text = [(sev, text)]"

definition endl :: string where
  "endl = [CHR 0x0A]"

subsection \<open>Containers of the standard library\<close>

text \<open>
  \<^verbatim>\<open>std::unordered_map<int,double>\<close> is a map. Its member \<^verbatim>\<open>insert\<close> adds the pair
  only when no element with that key exists, and leaves the container as it is
  otherwise; \<^verbatim>\<open>find\<close> followed by \<^verbatim>\<open>erase\<close> of the iterator removes the key.
\<close>

definition unordered_map_insert :: "'k \<times> 'v \<Rightarrow> ('k \<rightharpoonup> 'v) \<Rightarrow> ('k \<rightharpoonup> 'v)" where
  "unordered_map_insert kv m = (case m (fst kv) of None \<Rightarrow> m(fst kv \<mapsto> snd kv) | Some w \<Rightarrow> m)"

definition unordered_map_erase :: "'k \<Rightarrow> ('k \<rightharpoonup> 'v) \<Rightarrow> ('k \<rightharpoonup> 'v)" where
  "unordered_map_erase k m = m(k := None)"

text \<open>
  \<^verbatim>\<open>std::map<std::string,int>\<close> is a list of pairs with distinct keys, so that its
  number of entries is the length of the list. Its \<^verbatim>\<open>insert\<close> does not replace an
  existing key either, and the constructor from an initializer list inserts the pairs
  one after the other. \<^verbatim>\<open>find\<close> is \<open>map_of\<close>.
\<close>

definition map_insert :: "'k \<times> 'v \<Rightarrow> ('k \<times> 'v) list \<Rightarrow> ('k \<times> 'v) list" where
  "map_insert kv m = (case map_of m (fst kv) of None \<Rightarrow> m @ [kv] | Some w \<Rightarrow> m)"

definition map_from_initializer_list :: "('k \<times> 'v) list \<Rightarrow> ('k \<times> 'v) list" where
  "map_from_initializer_list kvs = foldl (\<lambda>m kv. map_insert kv m) [] kvs"

subsection \<open>The class\<close>

record 'gp Parameters =
  m_dim :: c_int
  m_lambda :: c_int
  m_max_iter :: c_int
  m_max_fevals :: c_int
  m_quiet :: bool
  m_fplot :: string
  m_x0min :: dVec
  m_x0max :: dVec
  m_ftarget :: double
  m_ftolerance :: double
  m_xtol :: double
  m_seed :: uint64_t
  m_algo :: c_int
  m_with_gradient :: bool
  m_with_edm :: bool
  m_fixed_p :: "c_int \<rightharpoonup> double"
  m_gp :: 'gp
  m_mt_feval :: bool
  m_max_hist :: c_int

text \<open>The static member \<^verbatim>\<open>_algos\<close> and the list it is initialized from (line 489).\<close>

definition algos_initializer_list :: "(string \<times> c_int) list" where
  "algos_initializer_list =
     [(''cmaes'', 0), (''ipop'', 1), (''bipop'', 2), (''acmaes'', 3), (''aipop'', 4),
      (''abipop'', 5), (''sepcmaes'', 6), (''sepipop'', 7), (''sepbipop'', 8),
      (''sepacmaes'', 9), (''sepipop'', 10), (''sepbipop'', 11)]"

definition algos :: "(string \<times> c_int) list" where
  "algos = map_from_initializer_list algos_initializer_list"

subsection \<open>Initial bounds\<close>

text \<open>
  \<^verbatim>\<open>dVec::Constant(n, x)\<close> and \<^verbatim>\<open>dVec(n)\<close>. Eigen leaves the coefficients of
  \<^verbatim>\<open>dVec(n)\<close> uninitialized; the model fills them with NaN, and the loops below
  overwrite every one of them.
\<close>

definition dVec_Constant :: "c_int \<Rightarrow> double \<Rightarrow> error + dVec" where
  "dVec_Constant n x = (if sint n < 0 then Inl NegativeSize else Inr (replicate (nat (sint n)) x))"

definition dVec_sized :: "c_int \<Rightarrow> error + dVec" where
  "dVec_sized n = (if sint n < 0 then Inl NegativeSize else Inr (replicate (nat (sint n)) NaN))"

text \<open>\<^verbatim>\<open>set_x0(const double &x0)\<close>: the right-hand assignment is done first.\<close>

definition set_x0_double :: "double \<Rightarrow> 'gp Parameters \<Rightarrow> error + 'gp Parameters" where
  "set_x0_double x0 p =
     (case dVec_Constant (m_dim p) x0 of
        Inl e \<Rightarrow> Inl e
      | Inr v \<Rightarrow> Inr (p\<lparr>m_x0max := v, m_x0min := v\<rparr>))"

text \<open>
  The loop \<^verbatim>\<open>for (int i=0;i<_dim;i++) _x0min(i) = _x0max(i) = x0[i];\<close>. The array
  behind the pointer is the list \<open>x0\<close>; the counter stays below \<^verbatim>\<open>_dim\<close>, so it
  is a natural number.
\<close>

function x0_loop :: "nat \<Rightarrow> nat \<Rightarrow> double list \<Rightarrow> dVec \<Rightarrow> dVec \<Rightarrow> error + dVec \<times> dVec" where
  "x0_loop i n x0 x0min x0max =
     (if i < n then
        (if i < length x0
         then x0_loop (Suc i) n x0 (x0min[i := x0 ! i]) (x0max[i := x0 ! i])
         else Inl OutOfBoundsRead)
      else Inr (x0min, x0max))"
  by pat_completeness auto
termination
  by (relation "measure (\<lambda>(i, n, x0, x0min, x0max). n - i)") auto

text \<open>\<^verbatim>\<open>set_x0(const double *x0)\<close>\<close>

definition set_x0_ptr :: "double list \<Rightarrow> 'gp Parameters \<Rightarrow> error + 'gp Parameters" where
  "set_x0_ptr x0 p =
     (case dVec_sized (m_dim p) of
        Inl e \<Rightarrow> Inl e
      | Inr v \<Rightarrow>
          (case x0_loop 0 (nat (sint (m_dim p))) x0 v v of
             Inl e \<Rightarrow> Inl e
           | Inr (x0min, x0max) \<Rightarrow> Inr (p\<lparr>m_x0max := x0max, m_x0min := x0min\<rparr>)))"

text \<open>\<^verbatim>\<open>set_x0(const double &x0min, const double &x0max)\<close>\<close>

definition set_x0_double2 :: "double \<Rightarrow> double \<Rightarrow> 'gp Parameters \<Rightarrow> error + 'gp Parameters" where
  "set_x0_double2 x0min x0max p =
     (case dVec_Constant (m_dim p) x0min of
        Inl e \<Rightarrow> Inl e
      | Inr lo \<Rightarrow>
          (case dVec_Constant (m_dim p) x0max of
             Inl e \<Rightarrow> Inl e
           | Inr hi \<Rightarrow> Inr (p\<lparr>m_x0min := lo, m_x0max := hi\<rparr>)))"

text \<open>\<^verbatim>\<open>set_x0(const dVec &x0)\<close>\<close>

definition set_x0_dVec :: "dVec \<Rightarrow> 'gp Parameters \<Rightarrow> 'gp Parameters" where
  "set_x0_dVec x0 p = p\<lparr>m_x0min := x0, m_x0max := x0\<rparr>"

text \<open>
  The loop of \<^verbatim>\<open>set_x0(const double *x0min, const double *x0max)\<close>, which reads
  \<^verbatim>\<open>x0min[i]\<close> before \<^verbatim>\<open>x0max[i]\<close>.
\<close>

function x0_loop2 :: "nat \<Rightarrow> nat \<Rightarrow> double list \<Rightarrow> double list \<Rightarrow> dVec \<Rightarrow> dVec \<Rightarrow> error + dVec \<times> dVec" where
  "x0_loop2 i n lo hi x0min x0max =
     (if i < n then
        (if i < length lo \<and> i < length hi
         then x0_loop2 (Suc i) n lo hi (x0min[i := lo ! i]) (x0max[i := hi ! i])
         else Inl OutOfBoundsRead)
      else Inr (x0min, x0max))"
  by pat_completeness auto
termination
  by (relation "measure (\<lambda>(i, n, lo, hi, x0min, x0max). n - i)") auto

definition set_x0_ptr2 :: "double list \<Rightarrow> double list \<Rightarrow> 'gp Parameters \<Rightarrow> error + 'gp Parameters" where
  "set_x0_ptr2 lo hi p =
     (case dVec_sized (m_dim p) of
        Inl e \<Rightarrow> Inl e
      | Inr v \<Rightarrow>
          (case x0_loop2 0 (nat (sint (m_dim p))) lo hi v v of
             Inl e \<Rightarrow> Inl e
           | Inr (x0min, x0max) \<Rightarrow> Inr (p\<lparr>m_x0min := x0min, m_x0max := x0max\<rparr>)))"

text \<open>\<^verbatim>\<open>set_x0(const dVec &x0min, const dVec &x0max)\<close>\<close>

definition set_x0_dVec2 :: "dVec \<Rightarrow> dVec \<Rightarrow> 'gp Parameters \<Rightarrow> 'gp Parameters" where
  "set_x0_dVec2 x0min x0max p = p\<lparr>m_x0min := x0min, m_x0max := x0max\<rparr>"

definition get_x0min :: "'gp Parameters \<Rightarrow> dVec" where
  "get_x0min p = m_x0min p"

definition get_x0max :: "'gp Parameters \<Rightarrow> dVec" where
  "get_x0max p = m_x0max p"

subsection \<open>Constructors\<close>

text \<open>
  The empty constructor initializes \<^verbatim>\<open>_dim\<close>, \<^verbatim>\<open>_lambda\<close> and \<^verbatim>\<open>_max_iter\<close> to 0;
  every other member takes its default member initializer (lines 459 to 483), the
  vectors and the map are empty and \<^verbatim>\<open>_gp\<close> is the default-constructed
  \<^verbatim>\<open>TGenoPheno\<close>, a parameter here.
\<close>

definition Parameters_empty :: "'gp \<Rightarrow> 'gp Parameters" where
  "Parameters_empty gp_default =
     \<lparr>m_dim = 0, m_lambda = 0, m_max_iter = 0, m_max_fevals = - 1,
      m_quiet = False, m_fplot = '''', m_x0min = [], m_x0max = [],
      m_ftarget = NegInf, m_ftolerance = Finite (1 / 10 ^ 12), m_xtol = Finite (1 / 10 ^ 12),
      m_seed = 0, m_algo = 0, m_with_gradient = False, m_with_edm = False,
      m_fixed_p = Map.empty, m_gp = gp_default, m_mt_feval = False, m_max_hist = 100\<rparr>"

text \<open>
  \<^verbatim>\<open>_lambda = 4 + floor(3.0*log(_dim))\<close>: the logarithm of the \<^verbatim>\<open>int\<close>, in double
  arithmetic, converted back to \<^verbatim>\<open>int\<close>. The model computes on the reals. For
  \<^verbatim>\<open>_dim <= 0\<close> the double is minus infinity or a NaN, and its conversion to
  \<^verbatim>\<open>int\<close> is undefined.
\<close>

definition default_lambda :: "c_int \<Rightarrow> error + c_int" where
  "default_lambda d =
     (if sint d \<le> 0 then Inl FloatToIntUndefined
      else Inr (word_of_int (4 + \<lfloor>3 * ln (real_of_int (sint d))\<rfloor>)))"

text \<open>
  \<^verbatim>\<open>Parameters(dim, x0, lambda, seed, gp)\<close>. The first argument \<open>now\<close> is the value
  of \<^verbatim>\<open>static_cast<uint64_t>(time(nullptr))\<close> at the call.
\<close>

definition Parameters_new ::
  "uint64_t \<Rightarrow> c_int \<Rightarrow> double list \<Rightarrow> c_int \<Rightarrow> uint64_t \<Rightarrow> 'gp \<Rightarrow> error + 'gp Parameters" where
  "Parameters_new now d x0 lambda seed gp =
     (let p = \<lparr>m_dim = d, m_lambda = lambda, m_max_iter = - 1, m_max_fevals = - 1,
               m_quiet = False, m_fplot = '''', m_x0min = [], m_x0max = [],
               m_ftarget = NegInf, m_ftolerance = Finite (1 / 10 ^ 12),
               m_xtol = Finite (1 / 10 ^ 12),
               m_seed = seed, m_algo = 0, m_with_gradient = False, m_with_edm = False,
               m_fixed_p = Map.empty, m_gp = gp, m_mt_feval = False, m_max_hist = 100\<rparr>
      in case (if m_lambda p = - 1 then default_lambda (m_dim p) else Inr (m_lambda p)) of
           Inl e \<Rightarrow> Inl e
         | Inr l \<Rightarrow>
             set_x0_ptr x0
               ((p\<lparr>m_lambda := l\<rparr>)\<lparr>m_seed := (if m_seed p = 0 then now else m_seed p)\<rparr>))"

subsection \<open>Setters and getters\<close>

definition set_fixed_p :: "c_int \<Rightarrow> double \<Rightarrow> 'gp Parameters \<Rightarrow> 'gp Parameters" where
  "set_fixed_p index val p = p\<lparr>m_fixed_p := unordered_map_insert (index, val) (m_fixed_p p)\<rparr>"

definition unset_fixed_p :: "c_int \<Rightarrow> 'gp Parameters \<Rightarrow> 'gp Parameters" where
  "unset_fixed_p index p =
     (if m_fixed_p p index \<noteq> None
      then p\<lparr>m_fixed_p := unordered_map_erase index (m_fixed_p p)\<rparr>
      else p)"

definition set_max_iter :: "c_int \<Rightarrow> 'gp Parameters \<Rightarrow> 'gp Parameters" where
  "set_max_iter maxiter p = p\<lparr>m_max_iter := maxiter\<rparr>"

definition get_max_iter :: "'gp Parameters \<Rightarrow> c_int" where
  "get_max_iter p = m_max_iter p"

definition set_max_fevals :: "c_int \<Rightarrow> 'gp Parameters \<Rightarrow> 'gp Parameters" where
  "set_max_fevals fevals p = p\<lparr>m_max_fevals := fevals\<rparr>"

definition get_max_fevals :: "'gp Parameters \<Rightarrow> c_int" where
  "get_max_fevals p = m_max_fevals p"

definition set_ftarget :: "double \<Rightarrow> 'gp Parameters \<Rightarrow> 'gp Parameters" where
  "set_ftarget val p = p\<lparr>m_ftarget := val\<rparr>"

definition reset_ftarget :: "'gp Parameters \<Rightarrow> 'gp Parameters" where
  "reset_ftarget p = p\<lparr>m_ftarget := NegInf\<rparr>"

definition get_ftarget :: "'gp Parameters \<Rightarrow> double" where
  "get_ftarget p = m_ftarget p"

text \<open>\<^verbatim>\<open>set_seed(const int &seed)\<close>, with \<open>now\<close> as in the constructor.\<close>

definition set_seed :: "uint64_t \<Rightarrow> c_int \<Rightarrow> 'gp Parameters \<Rightarrow> 'gp Parameters" where
  "set_seed now seed p =
     (if m_seed p = 0 then p\<lparr>m_seed := now\<rparr> else p\<lparr>m_seed := scast seed\<rparr>)"

definition get_seed :: "'gp Parameters \<Rightarrow> c_int" where
  "get_seed p = ucast (m_seed p)"

definition set_ftolerance :: "double \<Rightarrow> 'gp Parameters \<Rightarrow> 'gp Parameters" where
  "set_ftolerance v p = p\<lparr>m_ftolerance := v\<rparr>"

definition get_ftolerance :: "'gp Parameters \<Rightarrow> double" where
  "get_ftolerance p = m_ftolerance p"

definition set_xtolerance :: "double \<Rightarrow> 'gp Parameters \<Rightarrow> 'gp Parameters" where
  "set_xtolerance v p = p\<lparr>m_xtol := v\<rparr>"

definition get_xtolerance :: "'gp Parameters \<Rightarrow> double" where
  "get_xtolerance p = m_xtol p"

text \<open>The getters \<^verbatim>\<open>lambda()\<close> and \<^verbatim>\<open>dim()\<close>.\<close>

definition lambda :: "'gp Parameters \<Rightarrow> c_int" where
  "lambda p = m_lambda p"

definition dim_p :: "'gp Parameters \<Rightarrow> c_int" where
  "dim_p p = m_dim p"

definition set_quiet :: "bool \<Rightarrow> 'gp Parameters \<Rightarrow> 'gp Parameters" where
  "set_quiet q p = p\<lparr>m_quiet := q\<rparr>"

definition quiet :: "'gp Parameters \<Rightarrow> bool" where
  "quiet p = m_quiet p"

definition set_algo :: "c_int \<Rightarrow> 'gp Parameters \<Rightarrow> 'gp Parameters" where
  "set_algo algo p = p\<lparr>m_algo := algo\<rparr>"

text \<open>\<^verbatim>\<open>set_str_algo\<close> returns the diagnostics it logged with the new object.\<close>

definition set_str_algo :: "string \<Rightarrow> 'gp Parameters \<Rightarrow> diagnostic list \<times> 'gp Parameters" where
  "set_str_algo algo p =
     (case map_of algos algo of
        Some code \<Rightarrow> ([], p\<lparr>m_algo := code\<rparr>)
      | None \<Rightarrow> (LOG ERROR (''unknown algorithm '' @ algo @ endl), p))"

definition get_algo :: "'gp Parameters \<Rightarrow> c_int" where
  "get_algo p = m_algo p"

definition set_gp :: "'gp \<Rightarrow> 'gp Parameters \<Rightarrow> 'gp Parameters" where
  "set_gp gp p = p\<lparr>m_gp := gp\<rparr>"

definition get_gp :: "'gp Parameters \<Rightarrow> 'gp" where
  "get_gp p = m_gp p"

definition set_fplot :: "string \<Rightarrow> 'gp Parameters \<Rightarrow> 'gp Parameters" where
  "set_fplot fplot p = p\<lparr>m_fplot := fplot\<rparr>"

definition get_fplot :: "'gp Parameters \<Rightarrow> string" where
  "get_fplot p = m_fplot p"

definition set_gradient :: "bool \<Rightarrow> 'gp Parameters \<Rightarrow> 'gp Parameters" where
  "set_gradient gradient p = p\<lparr>m_with_gradient := gradient\<rparr>"

definition get_gradient :: "'gp Parameters \<Rightarrow> bool" where
  "get_gradient p = m_with_gradient p"

definition set_edm :: "bool \<Rightarrow> 'gp Parameters \<Rightarrow> 'gp Parameters" where
  "set_edm edm p = p\<lparr>m_with_edm := edm\<rparr>"

definition get_edm :: "'gp Parameters \<Rightarrow> bool" where
  "get_edm p = m_with_edm p"

definition set_mt_feval :: "bool \<Rightarrow> 'gp Parameters \<Rightarrow> 'gp Parameters" where
  "set_mt_feval mt p = p\<lparr>m_mt_feval := mt\<rparr>"

definition get_mt_feval :: "'gp Parameters \<Rightarrow> bool" where
  "get_mt_feval p = m_mt_feval p"

definition set_max_hist :: "c_int \<Rightarrow> 'gp Parameters \<Rightarrow> 'gp Parameters" where
  "set_max_hist m p = p\<lparr>m_max_hist := m\<rparr>"

subsection \<open>Calls\<close>

text \<open>
  The arguments of the six overloads of \<^verbatim>\<open>set_x0\<close>; \<open>set_x0\<close> is the overload
  resolution, and \<open>set_x0_seq\<close> a sequence of calls on one object, which stops at the
  first call whose behaviour is undefined.
\<close>

datatype x0_args =
    X0_double double
  | X0_ptr "double list"
  | X0_double2 double double
  | X0_dVec dVec
  | X0_ptr2 "double list" "double list"
  | X0_dVec2 dVec dVec

fun set_x0 :: "x0_args \<Rightarrow> 'gp Parameters \<Rightarrow> error + 'gp Parameters" where
  "set_x0 (X0_double x0) p = set_x0_double x0 p"
| "set_x0 (X0_ptr x0) p = set_x0_ptr x0 p"
| "set_x0 (X0_double2 x0min x0max) p = set_x0_double2 x0min x0max p"
| "set_x0 (X0_dVec x0) p = Inr (set_x0_dVec x0 p)"
| "set_x0 (X0_ptr2 x0min x0max) p = set_x0_ptr2 x0min x0max p"
| "set_x0 (X0_dVec2 x0min x0max) p = Inr (set_x0_dVec2 x0min x0max p)"

fun set_x0_seq :: "x0_args list \<Rightarrow> 'gp Parameters \<Rightarrow> error + 'gp Parameters" where
  "set_x0_seq [] p = Inr p"
| "set_x0_seq (c # cs) p = (case set_x0 c p of Inl e \<Rightarrow> Inl e | Inr q \<Rightarrow> set_x0_seq cs q)"

text \<open>
  When a call of \<^verbatim>\<open>set_x0\<close> is defined in C++: the overloads that build a vector of
  \<^verbatim>\<open>_dim\<close> coefficients need \<^verbatim>\<open>_dim >= 0\<close>, and those that read an array need
  \<^verbatim>\<open>_dim\<close> entries in it. The overloads that take a \<^verbatim>\<open>dVec\<close> copy it whatever
  its size.
\<close>

fun set_x0_defined :: "c_int \<Rightarrow> x0_args \<Rightarrow> bool" where
  "set_x0_defined d (X0_double x0) = (0 \<le> sint d)"
| "set_x0_defined d (X0_ptr x0) = (0 \<le> sint d \<and> nat (sint d) \<le> length x0)"
| "set_x0_defined d (X0_double2 x0min x0max) = (0 \<le> sint d)"
| "set_x0_defined d (X0_dVec x0) = True"
| "set_x0_defined d (X0_ptr2 x0min x0max) =
     (0 \<le> sint d \<and> nat (sint d) \<le> length x0min \<and> nat (sint d) \<le> length x0max)"
| "set_x0_defined d (X0_dVec2 x0min x0max) = True"

text \<open>
  What the spec says a call stores, from the call and the dimension alone: a scalar is
  broadcast to all dimensions, a full vector is an exact start point (min = max), a
  scalar pair is broadcast as bounds, a vector pair gives the bounds per dimension. Of
  an array passed by pointer the first \<open>n\<close> entries are the vector.
\<close>

fun spec_x0min :: "nat \<Rightarrow> x0_args \<Rightarrow> dVec" where
  "spec_x0min n (X0_double x0) = replicate n x0"
| "spec_x0min n (X0_ptr x0) = take n x0"
| "spec_x0min n (X0_double2 x0min x0max) = replicate n x0min"
| "spec_x0min n (X0_dVec x0) = x0"
| "spec_x0min n (X0_ptr2 x0min x0max) = take n x0min"
| "spec_x0min n (X0_dVec2 x0min x0max) = x0min"

fun spec_x0max :: "nat \<Rightarrow> x0_args \<Rightarrow> dVec" where
  "spec_x0max n (X0_double x0) = replicate n x0"
| "spec_x0max n (X0_ptr x0) = take n x0"
| "spec_x0max n (X0_double2 x0min x0max) = replicate n x0max"
| "spec_x0max n (X0_dVec x0) = x0"
| "spec_x0max n (X0_ptr2 x0min x0max) = take n x0max"
| "spec_x0max n (X0_dVec2 x0min x0max) = x0max"

text \<open>
  The public member functions that change the object after its construction, and one
  call of any of them. \<open>now\<close> is the clock at the call, read by \<^verbatim>\<open>set_seed\<close>
  only; the diagnostics are those of \<^verbatim>\<open>set_str_algo\<close>.
\<close>

datatype 'gp call =
    Set_x0 x0_args
  | Set_fixed_p c_int double
  | Unset_fixed_p c_int
  | Set_max_iter c_int
  | Set_max_fevals c_int
  | Set_ftarget double
  | Reset_ftarget
  | Set_seed c_int
  | Set_ftolerance double
  | Set_xtolerance double
  | Set_quiet bool
  | Set_algo c_int
  | Set_str_algo string
  | Set_gp 'gp
  | Set_fplot string
  | Set_gradient bool
  | Set_edm bool
  | Set_mt_feval bool
  | Set_max_hist c_int

fun invoke :: "uint64_t \<Rightarrow> 'gp call \<Rightarrow> 'gp Parameters \<Rightarrow> error + diagnostic list \<times> 'gp Parameters" where
  "invoke now (Set_x0 a) p = (case set_x0 a p of Inl e \<Rightarrow> Inl e | Inr q \<Rightarrow> Inr ([], q))"
| "invoke now (Set_fixed_p index val) p = Inr ([], set_fixed_p index val p)"
| "invoke now (Unset_fixed_p index) p = Inr ([], unset_fixed_p index p)"
| "invoke now (Set_max_iter maxiter) p = Inr ([], set_max_iter maxiter p)"
| "invoke now (Set_max_fevals fevals) p = Inr ([], set_max_fevals fevals p)"
| "invoke now (Set_ftarget val) p = Inr ([], set_ftarget val p)"
| "invoke now Reset_ftarget p = Inr ([], reset_ftarget p)"
| "invoke now (Set_seed seed) p = Inr ([], set_seed now seed p)"
| "invoke now (Set_ftolerance v) p = Inr ([], set_ftolerance v p)"
| "invoke now (Set_xtolerance v) p = Inr ([], set_xtolerance v p)"
| "invoke now (Set_quiet q) p = Inr ([], set_quiet q p)"
| "invoke now (Set_algo algo) p = Inr ([], set_algo algo p)"
| "invoke now (Set_str_algo algo) p = Inr (set_str_algo algo p)"
| "invoke now (Set_gp gp) p = Inr ([], set_gp gp p)"
| "invoke now (Set_fplot fplot) p = Inr ([], set_fplot fplot p)"
| "invoke now (Set_gradient gradient) p = Inr ([], set_gradient gradient p)"
| "invoke now (Set_edm edm) p = Inr ([], set_edm edm p)"
| "invoke now (Set_mt_feval mt) p = Inr ([], set_mt_feval mt p)"
| "invoke now (Set_max_hist m) p = Inr ([], set_max_hist m p)"

section \<open>Properties\<close>

subsection \<open>The registry of algorithm names\<close>

lemma algos_entries:
  "algos = [(''cmaes'', 0), (''ipop'', 1), (''bipop'', 2), (''acmaes'', 3), (''aipop'', 4),
            (''abipop'', 5), (''sepcmaes'', 6), (''sepipop'', 7), (''sepbipop'', 8),
            (''sepacmaes'', 9)]"
  by (simp add: algos_def map_from_initializer_list_def algos_initializer_list_def
      map_insert_def)

text \<open>
  C3. The registry is initialized from twelve pairs, but a \<^verbatim>\<open>std::map\<close> keeps the
  first pair of a key: the registry has ten entries, the names sepipop and sepbipop are
  looked up as 7 and 8, no name is looked up as 10 or 11, and the names sepaipop and
  sepabipop, which the documentation of \<^verbatim>\<open>set_str_algo\<close> lists, are not registered.
\<close>

theorem algos_has_ten_entries:
  "length algos_initializer_list = 12 \<and> length algos = 10
   \<and> map_of algos ''sepipop'' = Some 7 \<and> map_of algos ''sepbipop'' = Some 8
   \<and> map_of algos ''sepaipop'' = None \<and> map_of algos ''sepabipop'' = None
   \<and> snd ` set algos = {0, 1, 2, 3, 4, 5, 6, 7, 8, 9}"
  by (simp add: algos_entries algos_initializer_list_def insert_commute)

text \<open>
  C4. Selecting an algorithm by a name that is not in the registry returns normally,
  leaves the whole object, and so the algorithm code \<open>c\<close> it had, unchanged, and logs
  one diagnostic of severity ERROR; selecting a name that the registry maps to the code
  \<open>k\<close> stores \<open>k\<close> as the algorithm code, changes nothing else and logs nothing;
  selecting bipop stores the code 2.
\<close>

theorem set_str_algo_unknown_name:
  "(m_algo p = c \<and> map_of algos s = None \<longrightarrow>
      snd (set_str_algo s p) = p \<and> get_algo (snd (set_str_algo s p)) = c
      \<and> fst (set_str_algo s p) = [(ERROR, ''unknown algorithm '' @ s @ endl)])
   \<and> (map_of algos s = Some k \<longrightarrow>
      snd (set_str_algo s p) = p\<lparr>m_algo := k\<rparr> \<and> get_algo (snd (set_str_algo s p)) = k
      \<and> fst (set_str_algo s p) = [])
   \<and> map_of algos ''bipop'' = Some 2
   \<and> get_algo (snd (set_str_algo ''bipop'' p)) = 2 \<and> fst (set_str_algo ''bipop'' p) = []"
  by (simp add: set_str_algo_def LOG_def get_algo_def algos_entries)

theorem set_str_algo_unknown_name_witness:
  "m_algo (set_algo 5 (Parameters_empty ())) = 5 \<and> map_of algos ''nonexistent'' = None
   \<and> snd (set_str_algo ''nonexistent'' (set_algo 5 (Parameters_empty ()))) = set_algo 5 (Parameters_empty ())
   \<and> get_algo (snd (set_str_algo ''nonexistent'' (set_algo 5 (Parameters_empty ())))) = 5
   \<and> fst (set_str_algo ''nonexistent'' (set_algo 5 (Parameters_empty ())))
       = [(ERROR, ''unknown algorithm '' @ ''nonexistent'' @ endl)]
   \<and> map_of algos ''sepcmaes'' = Some 6
   \<and> snd (set_str_algo ''sepcmaes'' (set_algo 5 (Parameters_empty ())))
       = (set_algo 5 (Parameters_empty ()))\<lparr>m_algo := 6\<rparr>
   \<and> get_algo (snd (set_str_algo ''sepcmaes'' (set_algo 5 (Parameters_empty ())))) = 6
   \<and> fst (set_str_algo ''sepcmaes'' (set_algo 5 (Parameters_empty ()))) = []"
proof -
  have u: "m_algo (set_algo 5 (Parameters_empty ())) = 5 \<and> map_of algos ''nonexistent'' = None"
    by (simp add: algos_entries set_algo_def)
  have r: "map_of algos ''sepcmaes'' = Some 6"
    by (simp add: algos_entries)
  note unknown = set_str_algo_unknown_name [where p = "set_algo 5 (Parameters_empty ())"
      and c = 5 and s = "''nonexistent''" and k = 0, THEN conjunct1, THEN mp, OF u]
  note known = set_str_algo_unknown_name [where p = "set_algo 5 (Parameters_empty ())"
      and c = 5 and s = "''sepcmaes''" and k = 6, THEN conjunct2, THEN conjunct1, THEN mp, OF r]
  show ?thesis using u r unknown known by blast
qed

subsection \<open>Fixed parameters\<close>

text \<open>
  C1. Freezing index 0 to 1 and then to 2, on an object with no fixed parameter, leaves
  index 0 bound to 1: the second call does not overwrite the value stored by the first.
\<close>

theorem set_fixed_p_twice_keeps_first:
  "m_fixed_p (set_fixed_p 0 (Finite 2) (set_fixed_p 0 (Finite 1) (Parameters_empty ()))) 0
     = Some (Finite 1)"
  by (simp add: set_fixed_p_def unordered_map_insert_def Parameters_empty_def)

text \<open>
  C8. After freezing index \<open>i\<close> and unfreezing it, the mapping of fixed parameters does
  not contain \<open>i\<close>; unfreezing an index that the mapping does not contain leaves the
  object unchanged, so unfreezing twice is unfreezing once.
\<close>

theorem set_then_unset_fixed_p:
  "m_fixed_p (unset_fixed_p i (set_fixed_p i v p)) i = None
   \<and> i \<notin> dom (m_fixed_p (unset_fixed_p i (set_fixed_p i v p)))
   \<and> (m_fixed_p p i = None \<longrightarrow> unset_fixed_p i p = p)
   \<and> unset_fixed_p i (unset_fixed_p i p) = unset_fixed_p i p"
  by (simp add: set_fixed_p_def unset_fixed_p_def unordered_map_insert_def
      unordered_map_erase_def domIff split: option.splits)

theorem set_then_unset_fixed_p_witness:
  "m_fixed_p (Parameters_empty ()) 3 = None
   \<and> unset_fixed_p 3 (Parameters_empty ()) = Parameters_empty ()
   \<and> m_fixed_p (unset_fixed_p 3 (set_fixed_p 3 (Finite 1) (Parameters_empty ()))) 3 = None"
  using set_then_unset_fixed_p [of 3 "Finite 1" "Parameters_empty ()"]
  by (simp add: Parameters_empty_def)

subsection \<open>The empty constructor\<close>

text \<open>
  C10. The empty constructor gives dimension 0, population size 0 and 0 as the maximum
  number of iterations, which is not the default member initializer -1 of that member;
  the budget of function evaluations is -1, the seed 0, the target minus infinity, both
  tolerances 1e-12, the algorithm code 0, the history size 100, and no parameter is
  fixed.
\<close>

theorem Parameters_empty_fields:
  "m_dim (Parameters_empty gp) = 0 \<and> m_lambda (Parameters_empty gp) = 0
   \<and> m_max_iter (Parameters_empty gp) = 0 \<and> m_max_iter (Parameters_empty gp) \<noteq> - 1
   \<and> m_max_fevals (Parameters_empty gp) = - 1 \<and> m_seed (Parameters_empty gp) = 0
   \<and> m_ftarget (Parameters_empty gp) = NegInf
   \<and> m_ftolerance (Parameters_empty gp) = Finite (1 / 10 ^ 12)
   \<and> m_xtol (Parameters_empty gp) = Finite (1 / 10 ^ 12)
   \<and> m_algo (Parameters_empty gp) = 0 \<and> m_max_hist (Parameters_empty gp) = 100
   \<and> m_fixed_p (Parameters_empty gp) = Map.empty"
  by (simp add: Parameters_empty_def)

subsection \<open>The loops that copy the caller's arrays\<close>

lemma x0_loop_result:
  "i \<le> n \<Longrightarrow> n \<le> length x0 \<Longrightarrow> length x0min = n \<Longrightarrow> length x0max = n \<Longrightarrow>
   x0_loop i n x0 x0min x0max
     = Inr (take i x0min @ drop i (take n x0), take i x0max @ drop i (take n x0))"
proof (induction i n x0 x0min x0max rule: x0_loop.induct)
  case (1 i n x0 x0min x0max)
  show ?case
  proof (cases "i < n")
    case True
    then have il: "i < length x0" using 1 by simp
    have "x0_loop i n x0 x0min x0max
            = x0_loop (Suc i) n x0 (x0min[i := x0 ! i]) (x0max[i := x0 ! i])"
      using True il by simp
    also have "\<dots> = Inr (take (Suc i) (x0min[i := x0 ! i]) @ drop (Suc i) (take n x0),
                        take (Suc i) (x0max[i := x0 ! i]) @ drop (Suc i) (take n x0))"
      using 1 True il by simp
    finally show ?thesis using 1 True il
      by (simp add: take_Suc_conv_app_nth Cons_nth_drop_Suc [symmetric])
  next
    case False
    then show ?thesis using 1 by simp
  qed
qed

lemma x0_loop_short:
  "i \<le> length x0 \<Longrightarrow> length x0 < n \<Longrightarrow> x0_loop i n x0 x0min x0max = Inl OutOfBoundsRead"
proof (induction i n x0 x0min x0max rule: x0_loop.induct)
  case (1 i n x0 x0min x0max)
  then show ?case by (cases "i < length x0") auto
qed

lemma x0_loop2_result:
  "i \<le> n \<Longrightarrow> n \<le> length lo \<Longrightarrow> n \<le> length hi \<Longrightarrow> length x0min = n \<Longrightarrow>
   length x0max = n \<Longrightarrow>
   x0_loop2 i n lo hi x0min x0max
     = Inr (take i x0min @ drop i (take n lo), take i x0max @ drop i (take n hi))"
proof (induction i n lo hi x0min x0max rule: x0_loop2.induct)
  case (1 i n lo hi x0min x0max)
  show ?case
  proof (cases "i < n")
    case True
    then have il: "i < length lo" "i < length hi" using 1 by simp_all
    have "x0_loop2 i n lo hi x0min x0max
            = x0_loop2 (Suc i) n lo hi (x0min[i := lo ! i]) (x0max[i := hi ! i])"
      using True il by simp
    also have "\<dots> = Inr (take (Suc i) (x0min[i := lo ! i]) @ drop (Suc i) (take n lo),
                        take (Suc i) (x0max[i := hi ! i]) @ drop (Suc i) (take n hi))"
      using 1 True il by simp
    finally show ?thesis using 1 True il
      by (simp add: take_Suc_conv_app_nth Cons_nth_drop_Suc [symmetric])
  next
    case False
    then show ?thesis using 1 by simp
  qed
qed

lemma x0_loop2_short:
  "i \<le> length lo \<Longrightarrow> i \<le> length hi \<Longrightarrow> length lo < n \<or> length hi < n \<Longrightarrow>
   x0_loop2 i n lo hi x0min x0max = Inl OutOfBoundsRead"
proof (induction i n lo hi x0min x0max rule: x0_loop2.induct)
  case (1 i n lo hi x0min x0max)
  then show ?case by (cases "i < length lo \<and> i < length hi") auto
qed

subsection \<open>The overloads of set\_x0 in closed form\<close>

lemma set_x0_ptr_eq:
  "set_x0_ptr x0 p =
     (if sint (m_dim p) < 0 then Inl NegativeSize
      else if length x0 < nat (sint (m_dim p)) then Inl OutOfBoundsRead
      else Inr (p\<lparr>m_x0max := take (nat (sint (m_dim p))) x0,
                 m_x0min := take (nat (sint (m_dim p))) x0\<rparr>))"
  by (simp add: set_x0_ptr_def dVec_sized_def x0_loop_result x0_loop_short del: x0_loop.simps)

lemma set_x0_ptr2_eq:
  "set_x0_ptr2 lo hi p =
     (if sint (m_dim p) < 0 then Inl NegativeSize
      else if length lo < nat (sint (m_dim p)) \<or> length hi < nat (sint (m_dim p))
      then Inl OutOfBoundsRead
      else Inr (p\<lparr>m_x0min := take (nat (sint (m_dim p))) lo,
                 m_x0max := take (nat (sint (m_dim p))) hi\<rparr>))"
  by (auto simp add: set_x0_ptr2_def dVec_sized_def x0_loop2_result x0_loop2_short
      simp del: x0_loop2.simps)

lemma set_x0_double_eq:
  "set_x0_double x0 p =
     (if sint (m_dim p) < 0 then Inl NegativeSize
      else Inr (p\<lparr>m_x0max := replicate (nat (sint (m_dim p))) x0,
                 m_x0min := replicate (nat (sint (m_dim p))) x0\<rparr>))"
  by (simp add: set_x0_double_def dVec_Constant_def)

lemma set_x0_double2_eq:
  "set_x0_double2 lo hi p =
     (if sint (m_dim p) < 0 then Inl NegativeSize
      else Inr (p\<lparr>m_x0min := replicate (nat (sint (m_dim p))) lo,
                 m_x0max := replicate (nat (sint (m_dim p))) hi\<rparr>))"
  by (simp add: set_x0_double2_def dVec_Constant_def)

lemmas set_x0_eqs = set_x0_ptr_eq set_x0_ptr2_eq set_x0_double_eq set_x0_double2_eq
  set_x0_dVec_def set_x0_dVec2_def

lemma set_x0_frame:
  "set_x0 a p = Inr q \<Longrightarrow> m_dim q = m_dim p \<and> m_lambda q = m_lambda p"
  by (cases a) (auto simp add: set_x0_eqs split: if_splits)

lemma set_x0_stores:
  "set_x0 a p = Inr q \<Longrightarrow>
   get_x0min q = spec_x0min (nat (sint (m_dim p))) a
   \<and> get_x0max q = spec_x0max (nat (sint (m_dim p))) a"
  by (cases a) (auto simp add: set_x0_eqs get_x0min_def get_x0max_def split: if_splits)

lemma set_x0_returns:
  "(\<exists>q. set_x0 a p = Inr q) = set_x0_defined (m_dim p) a"
  by (cases a) (auto simp add: set_x0_eqs)

lemma set_x0_seq_frame:
  "set_x0_seq cs p = Inr q \<Longrightarrow> m_dim q = m_dim p"
proof (induction cs arbitrary: p)
  case Nil
  then show ?case by simp
next
  case (Cons c cs)
  then show ?case by (auto split: sum.splits dest: set_x0_frame)
qed

lemma set_x0_seq_snoc:
  "set_x0_seq (cs @ [c]) p = (case set_x0_seq cs p of Inl e \<Rightarrow> Inl e | Inr q \<Rightarrow> set_x0 c q)"
  by (induction cs arbitrary: p) (auto split: sum.splits)

text \<open>
  C6. After any sequence of calls of the overloads of \<^verbatim>\<open>set_x0\<close> that returned, a
  further call that is defined returns, and the getters then give the vectors that this
  last call and the dimension determine: the values of the call as they were passed,
  with nothing left of the earlier calls.
\<close>

theorem set_x0_last_call_wins:
  assumes "set_x0_seq cs p = Inr q" and "set_x0_defined (m_dim p) c"
  shows "\<exists>r. set_x0_seq (cs @ [c]) p = Inr r
           \<and> get_x0min r = spec_x0min (nat (sint (m_dim p))) c
           \<and> get_x0max r = spec_x0max (nat (sint (m_dim p))) c"
proof -
  have d: "m_dim q = m_dim p" using assms(1) by (rule set_x0_seq_frame)
  then obtain r where r: "set_x0 c q = Inr r"
    using assms(2) set_x0_returns [of c q] by auto
  have "set_x0_seq (cs @ [c]) p = Inr r"
    using assms(1) r by (simp add: set_x0_seq_snoc)
  then show ?thesis using set_x0_stores [OF r] d by simp
qed

theorem set_x0_last_call_wins_witness:
  "set_x0_seq [X0_double2 (Finite (- 1)) (Finite 1), X0_ptr [Finite 5, Finite 6]]
      (Parameters_empty ()\<lparr>m_dim := 2\<rparr>)
     = Inr (Parameters_empty ()\<lparr>m_dim := 2, m_x0min := [Finite 5, Finite 6],
              m_x0max := [Finite 5, Finite 6]\<rparr>)
   \<and> set_x0_defined (m_dim (Parameters_empty ()\<lparr>m_dim := 2\<rparr>)) (X0_double (Finite 3))
   \<and> (\<exists>r. set_x0_seq ([X0_double2 (Finite (- 1)) (Finite 1), X0_ptr [Finite 5, Finite 6]]
                 @ [X0_double (Finite 3)]) (Parameters_empty ()\<lparr>m_dim := 2\<rparr>) = Inr r
          \<and> get_x0min r = [Finite 3, Finite 3] \<and> get_x0max r = [Finite 3, Finite 3])"
proof -
  have h: "set_x0_seq [X0_double2 (Finite (- 1)) (Finite 1), X0_ptr [Finite 5, Finite 6]]
      (Parameters_empty ()\<lparr>m_dim := 2\<rparr>)
     = Inr (Parameters_empty ()\<lparr>m_dim := 2, m_x0min := [Finite 5, Finite 6],
              m_x0max := [Finite 5, Finite 6]\<rparr>)"
    by (simp add: set_x0_eqs Parameters_empty_def)
  have g: "set_x0_defined (m_dim (Parameters_empty ()\<lparr>m_dim := 2\<rparr>)) (X0_double (Finite 3))"
    by simp
  show ?thesis using h g set_x0_last_call_wins [OF h g] by (simp add: numeral_2_eq_2)
qed

subsection \<open>Frame of the setters\<close>

text \<open>
  C9. Every call of a public member function that changes the object after its
  construction (the overloads of \<^verbatim>\<open>set_x0\<close> and the eighteen other setters), when it
  returns, leaves the dimension and the population size as they were.
\<close>

theorem setters_keep_dim_and_lambda:
  assumes "invoke now c p = Inr (diags, q)"
  shows "m_dim q = m_dim p \<and> m_lambda q = m_lambda p
       \<and> dim_p q = dim_p p \<and> lambda q = lambda p"
proof (cases c)
  case (Set_x0 a)
  then obtain q' where "set_x0 a p = Inr q'" "q = q'"
    using assms by (auto split: sum.splits)
  then show ?thesis using set_x0_frame [of a p q] by (simp add: dim_p_def lambda_def)
qed (use assms in \<open>auto simp add: dim_p_def lambda_def
      set_fixed_p_def unset_fixed_p_def set_max_iter_def set_max_fevals_def
      set_ftarget_def reset_ftarget_def set_seed_def set_ftolerance_def set_xtolerance_def
      set_quiet_def set_algo_def set_str_algo_def set_gp_def set_fplot_def set_gradient_def
      set_edm_def set_mt_feval_def set_max_hist_def split: if_splits option.splits\<close>)

theorem setters_keep_dim_and_lambda_witness:
  "invoke 0 (Set_max_hist 50) (Parameters_empty ())
     = Inr ([], set_max_hist 50 (Parameters_empty ()))
   \<and> m_dim (set_max_hist 50 (Parameters_empty ())) = m_dim (Parameters_empty ())
   \<and> m_lambda (set_max_hist 50 (Parameters_empty ())) = m_lambda (Parameters_empty ())"
proof -
  have h: "invoke 0 (Set_max_hist 50) (Parameters_empty ())
             = Inr ([], set_max_hist 50 (Parameters_empty ()))"
    by simp
  show ?thesis using h setters_keep_dim_and_lambda [OF h] by simp
qed

subsection \<open>Bounds on the logarithm\<close>

lemma exp_1_ge: "(269/100 :: real) \<le> exp 1"
proof -
  have q: "(41/32 :: real) \<le> exp (1/4)"
    using exp_lower_Taylor_quadratic [of "1/4 :: real"] by (simp add: power2_eq_square)
  have "(269/100 :: real) \<le> (41/32) ^ 4" by (simp add: power_divide)
  also have "\<dots> \<le> exp (1/4) ^ 4"
    by (rule power_mono [OF q]) simp
  also have "\<dots> = exp 1"
    using exp_of_nat_mult [of 4 "1/4 :: real"] by simp
  finally show ?thesis .
qed

lemma exp_1_le: "exp 1 \<le> (69/25 :: real)"
proof -
  have q: "exp (1/32) \<le> (1057/1024 :: real)"
    using exp_bound [of "1/32 :: real"] by (simp add: power2_eq_square)
  have "exp 1 = exp (1/32 :: real) ^ 32"
    using exp_of_nat_mult [of 32 "1/32 :: real"] by simp
  also have "\<dots> \<le> (1057/1024) ^ 32"
    by (rule power_mono [OF q]) simp
  also have "\<dots> \<le> (69/25 :: real)" by (simp add: power_divide)
  finally show ?thesis .
qed

lemma exp_7_gt: "(1000 :: real) < exp 7"
proof -
  have "(1000 :: real) < (269/100) ^ 7" by (simp add: power_divide)
  also have "\<dots> \<le> exp 1 ^ 7"
    by (rule power_mono [OF exp_1_ge]) simp
  also have "\<dots> = exp 7"
    using exp_of_nat_mult [of 7 "1 :: real"] by simp
  finally show ?thesis .
qed

lemma exp_11_gt: "(27000 :: real) < exp 11"
proof -
  have "(27000 :: real) < (269/100) ^ 11" by (simp add: power_divide)
  also have "\<dots> \<le> exp 1 ^ 11"
    by (rule power_mono [OF exp_1_ge]) simp
  also have "\<dots> = exp 11"
    using exp_of_nat_mult [of 11 "1 :: real"] by simp
  finally show ?thesis .
qed

lemma exp_10_le: "exp 10 \<le> (27000 :: real)"
proof -
  have "exp 10 = exp (1 :: real) ^ 10"
    using exp_of_nat_mult [of 10 "1 :: real"] by simp
  also have "\<dots> \<le> (69/25) ^ 10"
    by (rule power_mono [OF exp_1_le]) simp
  also have "\<dots> \<le> (27000 :: real)" by (simp add: power_divide)
  finally show ?thesis .
qed

lemma exp_6_le: "exp 6 \<le> (1000 :: real)"
proof -
  have "exp 6 = exp (1 :: real) ^ 6"
    using exp_of_nat_mult [of 6 "1 :: real"] by simp
  also have "\<dots> \<le> 3 ^ 6"
    by (rule power_mono [OF exp_le]) simp
  also have "\<dots> \<le> (1000 :: real)" by simp
  finally show ?thesis .
qed

lemma three_ln: "0 < x \<Longrightarrow> 3 * ln x = ln (x ^ 3)" for x :: real
  by (simp add: ln_realpow)

lemma floor_3ln_10: "\<lfloor>3 * ln (10 :: real)\<rfloor> = 6"
proof (rule floor_unique)
  have e: "3 * ln (10 :: real) = ln 1000" using three_ln [of 10] by simp
  show "of_int 6 \<le> 3 * ln (10 :: real)"
    unfolding e using exp_6_le by (simp add: ln_ge_iff)
  have "ln (1000 :: real) < ln (exp 7)"
    by (rule ln_strict_mono [OF exp_7_gt]) simp
  then show "3 * ln (10 :: real) < of_int 6 + 1"
    unfolding e by simp
qed

lemma floor_3ln_30: "\<lfloor>3 * ln (30 :: real)\<rfloor> = 10"
proof (rule floor_unique)
  have e: "3 * ln (30 :: real) = ln 27000" using three_ln [of 30] by simp
  show "of_int 10 \<le> 3 * ln (30 :: real)"
    unfolding e using exp_10_le by (simp add: ln_ge_iff)
  have "ln (27000 :: real) < ln (exp 11)"
    by (rule ln_strict_mono [OF exp_11_gt]) simp
  then show "3 * ln (30 :: real) < of_int 10 + 1"
    unfolding e by simp
qed

lemma ln_int32_bound:
  assumes "1 \<le> k" "k < 2 ^ 31"
  shows "0 \<le> \<lfloor>3 * ln (real_of_int k)\<rfloor> \<and> \<lfloor>3 * ln (real_of_int k)\<rfloor> < 93"
proof
  have "0 \<le> ln (real_of_int k)" using assms by simp
  then show "0 \<le> \<lfloor>3 * ln (real_of_int k)\<rfloor>" by simp
  have "real_of_int k < 2 ^ 31" using assms(2) by (metis of_int_less_iff of_int_numeral of_int_power)
  then have "ln (real_of_int k) < ln (2 ^ 31)"
    using assms(1) by (intro ln_strict_mono) simp_all
  also have "\<dots> = 31 * ln (2 :: real)" using ln_realpow [of "2 :: real" 31] by simp
  also have "\<dots> < 31" using ln_2_less_1 by simp
  finally have "3 * ln (real_of_int k) < 93" by simp
  then show "\<lfloor>3 * ln (real_of_int k)\<rfloor> < 93" by (simp add: floor_less_iff)
qed

lemma sint_word_of_int_small:
  "- (2 ^ 31) \<le> k \<Longrightarrow> k < 2 ^ 31 \<Longrightarrow> sint (word_of_int k :: 32 word) = k"
  by (simp add: signed_of_int signed_take_bit_int_eq_self)

lemma sint_int_less: "sint (d :: 32 word) < 2 ^ 31"
  using sint_lt [of d] by simp

lemma default_lambda_pos:
  assumes "0 < sint d"
  shows "\<exists>l. default_lambda d = Inr l \<and> sint l = 4 + \<lfloor>3 * ln (real_of_int (sint d))\<rfloor> \<and> 4 \<le> sint l"
proof -
  have b: "0 \<le> \<lfloor>3 * ln (real_of_int (sint d))\<rfloor> \<and> \<lfloor>3 * ln (real_of_int (sint d))\<rfloor> < 93"
    using assms sint_int_less [of d] by (intro ln_int32_bound) simp_all
  then have "sint (word_of_int (4 + \<lfloor>3 * ln (real_of_int (sint d))\<rfloor>) :: 32 word) = 4 + \<lfloor>3 * ln (real_of_int (sint d))\<rfloor>"
    by (intro sint_word_of_int_small) simp_all
  then show ?thesis using assms b by (simp add: default_lambda_def)
qed

lemma default_lambda_10: "default_lambda 10 = Inr 10"
  by (simp add: default_lambda_def floor_3ln_10)

lemma default_lambda_30: "default_lambda 30 = Inr 14"
  by (simp add: default_lambda_def floor_3ln_30)


subsection \<open>The constructor in closed form\<close>

lemma Parameters_new_eq:
  "Parameters_new now d x0 l seed gp =
     (case (if l = - 1 then default_lambda d else Inr l) of
        Inl e \<Rightarrow> Inl e
      | Inr l' \<Rightarrow>
          (if sint d < 0 then Inl NegativeSize
           else if length x0 < nat (sint d) then Inl OutOfBoundsRead
           else Inr \<lparr>m_dim = d, m_lambda = l', m_max_iter = - 1, m_max_fevals = - 1,
                 m_quiet = False, m_fplot = '''', m_x0min = take (nat (sint d)) x0,
                 m_x0max = take (nat (sint d)) x0,
                 m_ftarget = NegInf, m_ftolerance = Finite (1 / 10 ^ 12),
                 m_xtol = Finite (1 / 10 ^ 12),
                 m_seed = (if seed = 0 then now else seed), m_algo = 0,
                 m_with_gradient = False, m_with_edm = False,
                 m_fixed_p = Map.empty, m_gp = gp, m_mt_feval = False, m_max_hist = 100\<rparr>))"
  by (simp add: Parameters_new_def set_x0_ptr_eq split: sum.splits)



subsection \<open>The seed\<close>

lemma ucast_scast_int: "ucast (scast (v :: 32 word) :: 64 word) = v"
  by (rule bit_word_eqI) (auto simp add: bit_simps)

lemma set_seed_zero:
  "m_seed p = 0 \<Longrightarrow> m_seed (set_seed now v p) = now \<and> set_seed now v p = set_seed now v' p"
  by (simp add: set_seed_def)

lemma set_seed_nonzero:
  "m_seed p \<noteq> 0 \<Longrightarrow>
   m_seed (set_seed now v p) = scast v \<and> get_seed (set_seed now v p) = v
   \<and> uint (m_seed (set_seed now v p)) = sint v mod 2 ^ 64"
proof -
  assume "m_seed p \<noteq> 0"
  then have s: "set_seed now v p = p\<lparr>m_seed := scast v\<rparr>"
    by (simp add: set_seed_def)
  have u: "uint (scast v :: 64 word) = sint v mod 2 ^ 64"
    by (simp only: scast_eq uint_word_of_int) simp
  show ?thesis unfolding s using u
    by (simp add: get_seed_def ucast_scast_int)
qed

lemma Parameters_new_seed:
  "Parameters_new now d x0 l seed gp = Inr q \<Longrightarrow> m_seed q = (if seed = 0 then now else seed)"
  unfolding Parameters_new_eq
  by (cases "if l = - 1 then default_lambda d else Inr l")
     (auto split: if_splits)

text \<open>
  C5. When the stored seed is 0, \<^verbatim>\<open>set_seed\<close> stores the clock and the result does
  not depend on the value passed; when the stored seed is not 0, it stores the value
  passed, converted from \<^verbatim>\<open>int\<close> to \<^verbatim>\<open>uint64_t\<close>, and \<^verbatim>\<open>get_seed\<close> returns that
  value. A constructor call that returns has stored the clock when its seed argument is
  0, and the seed argument as it is otherwise.
\<close>

theorem set_seed_sentinel:
  "(m_seed p = 0 \<longrightarrow>
      m_seed (set_seed now v p) = now \<and> set_seed now v p = set_seed now v' p)
   \<and> (m_seed p \<noteq> 0 \<longrightarrow>
      m_seed (set_seed now v p) = scast v \<and> get_seed (set_seed now v p) = v
      \<and> uint (m_seed (set_seed now v p)) = sint v mod 2 ^ 64)
   \<and> (Parameters_new now d x0 l seed gp = Inr q \<longrightarrow>
      (seed = 0 \<longrightarrow> m_seed q = now) \<and> (seed \<noteq> 0 \<longrightarrow> m_seed q = seed))"
proof -
  have z: "m_seed p = 0 \<longrightarrow>
      m_seed (set_seed now v p) = now \<and> set_seed now v p = set_seed now v' p"
    using set_seed_zero [of p now v v'] by blast
  have n: "m_seed p \<noteq> 0 \<longrightarrow>
      m_seed (set_seed now v p) = scast v \<and> get_seed (set_seed now v p) = v
      \<and> uint (m_seed (set_seed now v p)) = sint v mod 2 ^ 64"
    using set_seed_nonzero [of p now v] by blast
  have c: "Parameters_new now d x0 l seed gp = Inr q \<longrightarrow>
      (seed = 0 \<longrightarrow> m_seed q = now) \<and> (seed \<noteq> 0 \<longrightarrow> m_seed q = seed)"
    using Parameters_new_seed [of now d x0 l seed gp q] by auto
  show ?thesis using z n c by (intro conjI)
qed

theorem set_seed_sentinel_witness:
  "m_seed (Parameters_empty ()) = 0
   \<and> m_seed (set_seed 1700000000 42 (Parameters_empty ())) = 1700000000
   \<and> m_seed (set_seed 1700000000 42 (Parameters_empty ())) \<noteq> 0
   \<and> m_seed (set_seed 1700000001 (- 1) (set_seed 1700000000 42 (Parameters_empty ()))) = scast (- 1 :: 32 word)
   \<and> get_seed (set_seed 1700000001 (- 1) (set_seed 1700000000 42 (Parameters_empty ()))) = - 1
   \<and> Parameters_new 1700000000 1 [Finite 0] 6 0 ()
       = Inr (Parameters_empty ()\<lparr>m_dim := 1, m_lambda := 6, m_max_iter := - 1,
                 m_x0min := [Finite 0], m_x0max := [Finite 0], m_seed := 1700000000\<rparr>)
   \<and> m_seed (Parameters_empty ()\<lparr>m_dim := 1, m_lambda := 6, m_max_iter := - 1,
                 m_x0min := [Finite 0], m_x0max := [Finite 0], m_seed := 1700000000\<rparr>) = 1700000000
   \<and> Parameters_new 1700000000 1 [Finite 0] 6 7 ()
       = Inr (Parameters_empty ()\<lparr>m_dim := 1, m_lambda := 6, m_max_iter := - 1,
                 m_x0min := [Finite 0], m_x0max := [Finite 0], m_seed := 7\<rparr>)
   \<and> m_seed (Parameters_empty ()\<lparr>m_dim := 1, m_lambda := 6, m_max_iter := - 1,
                 m_x0min := [Finite 0], m_x0max := [Finite 0], m_seed := 7\<rparr>) = 7"
proof -
  have e: "m_seed (Parameters_empty ()) = 0"
    by (simp add: Parameters_empty_def)
  have a: "Parameters_new 1700000000 1 [Finite 0] 6 0 ()
             = Inr (Parameters_empty ()\<lparr>m_dim := 1, m_lambda := 6, m_max_iter := - 1,
                 m_x0min := [Finite 0], m_x0max := [Finite 0], m_seed := 1700000000\<rparr>)"
    by (simp add: Parameters_new_eq Parameters_empty_def)
  note first = set_seed_sentinel [where p = "Parameters_empty ()" and now = 1700000000 and v = 42
      and d = 1 and ?x0.0 = "[Finite 0]" and l = 6 and seed = 0 and gp = "()"
      and q = "Parameters_empty ()\<lparr>m_dim := 1, m_lambda := 6, m_max_iter := - 1,
                 m_x0min := [Finite 0], m_x0max := [Finite 0], m_seed := 1700000000\<rparr>"]
  have s1: "m_seed (set_seed 1700000000 42 (Parameters_empty ())) = 1700000000"
    using first e by blast
  have s2: "m_seed (Parameters_empty ()\<lparr>m_dim := 1, m_lambda := 6, m_max_iter := - 1,
                 m_x0min := [Finite 0], m_x0max := [Finite 0], m_seed := 1700000000\<rparr>) = 1700000000"
    using first a by blast
  have n: "m_seed (set_seed 1700000000 42 (Parameters_empty ())) \<noteq> 0"
    unfolding s1 by simp
  note second = set_seed_sentinel [where p = "set_seed 1700000000 42 (Parameters_empty ())"
      and now = 1700000001 and v = "- 1"]
  have s34: "m_seed (set_seed 1700000001 (- 1) (set_seed 1700000000 42 (Parameters_empty ()))) = scast (- 1 :: 32 word)
      \<and> get_seed (set_seed 1700000001 (- 1) (set_seed 1700000000 42 (Parameters_empty ()))) = - 1
      \<and> uint (m_seed (set_seed 1700000001 (- 1) (set_seed 1700000000 42 (Parameters_empty ())))) = sint (- 1 :: 32 word) mod 2 ^ 64"
    by (rule mp [OF second [THEN conjunct2, THEN conjunct1] n])
  have b: "Parameters_new 1700000000 1 [Finite 0] 6 7 ()
             = Inr (Parameters_empty ()\<lparr>m_dim := 1, m_lambda := 6, m_max_iter := - 1,
                 m_x0min := [Finite 0], m_x0max := [Finite 0], m_seed := 7\<rparr>)"
    by (simp add: Parameters_new_eq Parameters_empty_def)
  note third = set_seed_sentinel [where now = 1700000000
      and d = 1 and ?x0.0 = "[Finite 0]" and l = 6 and seed = 7 and gp = "()"
      and q = "Parameters_empty ()\<lparr>m_dim := 1, m_lambda := 6, m_max_iter := - 1,
                 m_x0min := [Finite 0], m_x0max := [Finite 0], m_seed := 7\<rparr>"]
  have k: "(7 :: 64 word) \<noteq> 0" by simp
  have s5: "m_seed (Parameters_empty ()\<lparr>m_dim := 1, m_lambda := 6, m_max_iter := - 1,
                 m_x0min := [Finite 0], m_x0max := [Finite 0], m_seed := 7\<rparr>) = 7"
    by (rule mp [OF mp [OF third [THEN conjunct2, THEN conjunct2], THEN conjunct2] k, OF b])
  show ?thesis
    by (intro conjI e s1 n s34 [THEN conjunct1] s34 [THEN conjunct2, THEN conjunct1] a s2 b s5)
qed

subsection \<open>Degenerate bounds at construction\<close>

text \<open>
  C7, as the claim states it, fails for a scalar: the constructor takes a pointer to an
  array only, and reads \<^verbatim>\<open>_dim\<close> entries behind it. Handed one double and the
  dimension 2 it does not broadcast the double to both dimensions, it reads past the
  double (line 89).
\<close>

theorem Parameters_new_does_not_broadcast:
  "Parameters_new 1700000000 2 [Finite 0] 6 1 () = Inl OutOfBoundsRead
   \<and> map_sum id get_x0min (Parameters_new 1700000000 2 [Finite 0] 6 1 ())
       \<noteq> Inr [Finite 0, Finite 0]
   \<and> map_sum id get_x0max (Parameters_new 1700000000 2 [Finite 0] 6 1 ())
       \<noteq> Inr [Finite 0, Finite 0]"
  by (simp add: Parameters_new_eq)

text \<open>
  C7, amended. For a positive dimension and an initial point with that many entries,
  whatever the population size and the seed passed, the constructor returns, and both
  bounds of the new object are the initial point.
\<close>

theorem Parameters_new_degenerate_bounds:
  assumes "0 < sint d" and "length x0 = nat (sint d)"
  shows "\<exists>p. Parameters_new now d x0 l seed gp = Inr p
           \<and> get_x0min p = x0 \<and> get_x0max p = x0"
proof -
  obtain l' where l': "(if l = - 1 then default_lambda d else Inr l) = Inr l'"
    using default_lambda_pos [OF assms(1)] by (cases "l = - 1") auto
  show ?thesis
    using assms unfolding Parameters_new_eq l'
    by (simp add: get_x0min_def get_x0max_def)
qed

theorem Parameters_new_degenerate_bounds_witness:
  "(0::int) < sint (5 :: 32 word)
   \<and> length [Finite 0, Finite 0, Finite 0, Finite 0, Finite 0] = nat (sint (5 :: 32 word))
   \<and> (\<exists>p. Parameters_new 1700000000 5 [Finite 0, Finite 0, Finite 0, Finite 0, Finite 0]
              (- 1) 0 () = Inr p
          \<and> get_x0min p = [Finite 0, Finite 0, Finite 0, Finite 0, Finite 0]
          \<and> get_x0max p = [Finite 0, Finite 0, Finite 0, Finite 0, Finite 0])"
proof -
  have h1: "(0::int) < sint (5 :: 32 word)" by simp
  have h2: "length [Finite 0, Finite 0, Finite 0, Finite 0, Finite 0] = nat (sint (5 :: 32 word))"
    by simp
  show ?thesis
    using h1 h2 Parameters_new_degenerate_bounds [OF h1 h2, of 1700000000 "- 1" 0 "()"]
    by auto
qed

subsection \<open>The default population size\<close>

text \<open>
  C2, as the claim states it, fails at dimension 30: 3 ln 30 is 10.2, so the
  constructor resolves the population size to 14, not to 13.
\<close>

theorem default_lambda_30_is_not_13:
  "map_sum id lambda (Parameters_new 1700000000 30 (replicate 30 (Finite 0)) (- 1) 0 ()) = Inr 14
   \<and> map_sum id lambda (Parameters_new 1700000000 30 (replicate 30 (Finite 0)) (- 1) 0 ())
       \<noteq> Inr 13"
  by (simp add: Parameters_new_eq default_lambda_30 lambda_def)

text \<open>
  C2, amended. For every positive dimension and an initial point with at least that
  many entries, the constructor called with the population size -1 returns, and the
  population size of the new object is the floor of 4 + 3 ln dim, which is at least 1;
  it is 10 for the dimension 10 and 14 for the dimension 30.
\<close>

theorem default_lambda_resolved:
  "(0 < sint d \<and> nat (sint d) \<le> length x0 \<longrightarrow>
      (\<exists>p. Parameters_new now d x0 (- 1) seed gp = Inr p
          \<and> sint (lambda p) = \<lfloor>4 + 3 * ln (real_of_int (sint d))\<rfloor> \<and> 1 \<le> sint (lambda p)))
   \<and> map_sum id lambda (Parameters_new now 10 (replicate 10 x) (- 1) seed gp) = Inr 10
   \<and> map_sum id lambda (Parameters_new now 30 (replicate 30 x) (- 1) seed gp) = Inr 14"
proof (intro conjI impI)
  assume a: "0 < sint d \<and> nat (sint d) \<le> length x0"
  then obtain l' where l: "default_lambda d = Inr l'"
      "sint l' = 4 + \<lfloor>3 * ln (real_of_int (sint d))\<rfloor>" "4 \<le> sint l'"
    using default_lambda_pos [of d] by blast
  have "4 + \<lfloor>3 * ln (real_of_int (sint d))\<rfloor> = \<lfloor>4 + 3 * ln (real_of_int (sint d))\<rfloor>"
    by linarith
  then show "\<exists>p. Parameters_new now d x0 (- 1) seed gp = Inr p
          \<and> sint (lambda p) = \<lfloor>4 + 3 * ln (real_of_int (sint d))\<rfloor> \<and> 1 \<le> sint (lambda p)"
    using a l by (simp add: Parameters_new_eq lambda_def)
next
  show "map_sum id lambda (Parameters_new now 10 (replicate 10 x) (- 1) seed gp) = Inr 10"
    by (simp add: Parameters_new_eq default_lambda_10 lambda_def)
next
  show "map_sum id lambda (Parameters_new now 30 (replicate 30 x) (- 1) seed gp) = Inr 14"
    by (simp add: Parameters_new_eq default_lambda_30 lambda_def)
qed

theorem default_lambda_resolved_witness:
  "0 < sint (5 :: 32 word) \<and> nat (sint (5 :: 32 word)) \<le> length (replicate 5 (Finite 0))
   \<and> (\<exists>p. Parameters_new 1700000000 5 (replicate 5 (Finite 0)) (- 1) 0 () = Inr p
          \<and> sint (lambda p) = \<lfloor>4 + 3 * ln (real_of_int (sint (5 :: 32 word)))\<rfloor>
          \<and> 1 \<le> sint (lambda p))"
proof -
  have h: "0 < sint (5 :: 32 word) \<and> nat (sint (5 :: 32 word)) \<le> length (replicate 5 (Finite 0))"
    by simp
  show ?thesis
    using h default_lambda_resolved [of 5 "replicate 5 (Finite 0)" 1700000000 0 "()" "Finite 0",
        THEN conjunct1, THEN mp, OF h]
    by blast
qed

end
